theory Spec2Isabelle
  imports Complex_Main
begin

section \<open>Numbers\<close>

text \<open>
  The aggregation works on JavaScript numbers. Finite numbers are modelled as reals:
  rounding, overflow to an infinity and the sign of zero are not modelled, and the
  transaction fields \<open>quantity\<close>, \<open>price\<close> and \<open>fees\<close> are taken to be finite. The
  model therefore covers the runs whose sums, products and differences stay finite, and
  says nothing about a run in which one of them overflows or an input is NaN. Within
  these runs only a division can leave the finite numbers: \<open>x / 0\<close> is \<open>NaN\<close> for
  \<open>x = 0\<close> and an infinity otherwise. The fields that hold a quotient have the type
  \<open>number\<close>.
\<close>

datatype number = Finite real | PosInfinity | NegInfinity | NaN

definition js_div :: "real \<Rightarrow> real \<Rightarrow> number" where
  "js_div a b =
     (if b \<noteq> 0 then Finite (a / b)
      else if a = 0 then NaN
      else if 0 < a then PosInfinity
      else NegInfinity)"

text \<open>\<open>x * 100\<close> for a quotient \<open>x\<close>.\<close>

fun times100 :: "number \<Rightarrow> number" where
  "times100 (Finite r) = Finite (r * 100)"
| "times100 PosInfinity = PosInfinity"
| "times100 NegInfinity = NegInfinity"
| "times100 NaN = NaN"

fun isFinite :: "number \<Rightarrow> bool" where
  "isFinite (Finite r) = True"
| "isFinite PosInfinity = False"
| "isFinite NegInfinity = False"
| "isFinite NaN = False"

section \<open>Data model (src/types/index.ts)\<close>

record Stock =
  id :: string
  symbol :: string
  name :: string
  sector :: string
  industry :: string
  exchange :: string
  currency :: string

datatype transaction_type = Buy | Sell

text \<open>
  A transaction document. \<open>stock\<close> is the optional joined stock of the \<open>Transaction\<close>
  interface; \<open>loadPortfolioMetrics\<close> reads the raw document and resolves \<open>stock_id\<close>
  itself.
\<close>

record Transaction =
  stock_id :: string
  transaction_type :: transaction_type
  quantity :: real
  price :: real
  fees :: real
  stock :: "Stock option"

record Holding =
  stock :: Stock
  quantity :: real
  averagePrice :: number
  currentPrice :: real
  totalCost :: real
  currentValue :: real
  unrealizedGain :: real
  unrealizedGainPercent :: number
  weight :: number

record SectorAllocation =
  sector :: string
  "value" :: real
  percentage :: number

record PortfolioMetrics =
  totalValue :: real
  totalCost :: real
  totalGain :: real
  totalGainPercent :: number
  cagr :: real
  volatility :: real
  sharpeRatio :: real
  maxDrawdown :: real
  beta :: real
  holdings :: "Holding list"
  sectorAllocation :: "SectorAllocation list"

section \<open>The JavaScript Map\<close>

text \<open>
  A \<open>Map\<close> keeps its entries in insertion order, and \<open>Array.from\<close> reads them in that
  order: it is an association list. \<open>set\<close> on a present key replaces the value in place,
  on an absent key it appends; \<open>delete\<close> removes the entry.
\<close>

type_synonym ('k, 'v) js_map = "('k \<times> 'v) list"

definition map_get :: "('k, 'v) js_map \<Rightarrow> 'k \<Rightarrow> 'v option" where
  "map_get m k = map_of m k"

definition map_set :: "('k, 'v) js_map \<Rightarrow> 'k \<Rightarrow> 'v \<Rightarrow> ('k, 'v) js_map" where
  "map_set m k v =
     (if map_of m k = None then m @ [(k, v)]
      else map (\<lambda>(k', v'). if k' = k then (k', v) else (k', v')) m)"

definition map_delete :: "('k, 'v) js_map \<Rightarrow> 'k \<Rightarrow> ('k, 'v) js_map" where
  "map_delete m k = filter (\<lambda>(k', v'). k' \<noteq> k) m"

definition map_values :: "('k, 'v) js_map \<Rightarrow> 'v list" where
  "map_values m = map snd m"

section \<open>loadPortfolioMetrics (Dashboard)\<close>

text \<open>
  The stocks collection is a partial map from document id to stock; \<open>stockDoc.exists()\<close>
  is false where it is undefined. The state of the loop is the \<open>holdings\<close> map together
  with the \<open>totalCost\<close> accumulator. A holding object found in the map is mutated in
  place, which is \<open>map_set\<close> at its own key.

  \<open>processTransaction\<close> is the body of the loop from \<open>getDoc\<close> on, that is once
  \<open>doc(db, 'stocks', txn.stock_id)\<close> has returned a reference. The call of \<open>doc\<close> itself
  can throw; \<open>runLoop\<close> below has that branch.
\<close>

type_synonym stocks = "string \<rightharpoonup> Stock"
type_synonym agg_state = "(string, Holding) js_map \<times> real"

definition processTransaction :: "stocks \<Rightarrow> agg_state \<Rightarrow> Transaction \<Rightarrow> agg_state" where
  "processTransaction db st txn =
     (case db (stock_id txn) of
        None \<Rightarrow> st
      | Some stk \<Rightarrow>
          (let hs = fst st; tc = snd st;
               existingHolding = map_get hs (Stock.symbol stk)
           in case transaction_type txn of
                Buy \<Rightarrow>
                  (let cost = Transaction.quantity txn * price txn + fees txn
                   in case existingHolding of
                        Some h \<Rightarrow>
                          (let newQuantity = Holding.quantity h + Transaction.quantity txn;
                               newTotalCost = Holding.totalCost h + cost
                           in (map_set hs (Stock.symbol stk)
                                 (h\<lparr>Holding.quantity := newQuantity,
                                    Holding.totalCost := newTotalCost,
                                    averagePrice := js_div newTotalCost newQuantity\<rparr>),
                               tc + cost))
                      | None \<Rightarrow>
                          (map_set hs (Stock.symbol stk)
                             \<lparr>Holding.stock = stk,
                              Holding.quantity = Transaction.quantity txn,
                              averagePrice = Finite (price txn),
                              currentPrice = price txn,
                              Holding.totalCost = cost,
                              currentValue = Transaction.quantity txn * price txn,
                              unrealizedGain = 0,
                              unrealizedGainPercent = Finite 0,
                              weight = Finite 0\<rparr>,
                           tc + cost))
              | Sell \<Rightarrow>
                  (case existingHolding of
                     None \<Rightarrow> st
                   | Some h \<Rightarrow>
                       (let h' = h\<lparr>Holding.quantity :=
                                      Holding.quantity h - Transaction.quantity txn\<rparr>
                        in if Holding.quantity h' \<le> 0
                           then (map_delete hs (Stock.symbol stk), tc)
                           else (map_set hs (Stock.symbol stk) h', tc)))))"

text \<open>The loop over the query snapshot, from the empty map and a zero accumulator.\<close>

definition aggregate :: "stocks \<Rightarrow> Transaction list \<Rightarrow> agg_state" where
  "aggregate db txns = foldl (processTransaction db) ([], 0) txns"

text \<open>
  After the loop: \<open>holding.stock.sector || 'Unknown'\<close> reads \<open>Unknown\<close> for an empty
  sector, and \<open>sectorMap.get(sector) || 0\<close> reads 0 for a sector not yet in the map (a
  stored sum of 0 reads 0 as well). \<open>finishHolding\<close> is the body of the \<open>forEach\<close> that
  fills in the gain and the weight of each holding.
\<close>

definition sectorKey :: "Holding \<Rightarrow> string" where
  "sectorKey h =
     (if Stock.sector (Holding.stock h) = [] then ''Unknown''
      else Stock.sector (Holding.stock h))"

definition addSector :: "(string, real) js_map \<Rightarrow> Holding \<Rightarrow> (string, real) js_map" where
  "addSector m h =
     map_set m (sectorKey h)
       ((case map_get m (sectorKey h) of None \<Rightarrow> 0 | Some v \<Rightarrow> v) + currentValue h)"

definition finishHolding :: "real \<Rightarrow> Holding \<Rightarrow> Holding" where
  "finishHolding tv h =
     h\<lparr>unrealizedGain := currentValue h - Holding.totalCost h,
       unrealizedGainPercent :=
         times100 (js_div (currentValue h - Holding.totalCost h) (Holding.totalCost h)),
       weight := times100 (js_div (currentValue h) tv)\<rparr>"

text \<open>The statements after the loop, up to the argument of \<open>setMetrics\<close>.\<close>

definition buildMetrics :: "agg_state \<Rightarrow> PortfolioMetrics" where
  "buildMetrics st =
     (let tc = snd st;
          holdingsArray0 = map_values (fst st);
          tv = foldl (\<lambda>sum h. sum + currentValue h) 0 holdingsArray0;
          holdingsArray = map (finishHolding tv) holdingsArray0;
          sectorMap = foldl addSector [] holdingsArray
      in \<lparr>totalValue = tv,
          PortfolioMetrics.totalCost = tc,
          totalGain = tv - tc,
          totalGainPercent = times100 (js_div (tv - tc) tc),
          cagr = 0,
          volatility = 0,
          sharpeRatio = 0,
          maxDrawdown = 0,
          beta = 0,
          holdings = holdingsArray,
          sectorAllocation =
            map (\<lambda>(s, v). \<lparr>sector = s, value = v, percentage = times100 (js_div v tv)\<rparr>)
              sectorMap\<rparr>)"

text \<open>The metrics handed to \<open>setMetrics\<close> by a run in which no call of \<open>doc\<close> throws.\<close>

definition loadPortfolioMetrics :: "stocks \<Rightarrow> Transaction list \<Rightarrow> PortfolioMetrics" where
  "loadPortfolioMetrics db txns = buildMetrics (aggregate db txns)"

text \<open>
  The whole \<open>try\<close> block. \<open>doc\<close> belongs to the Firestore library, which is not part of
  the repository: whether it accepts a stock id as a document reference is the parameter
  \<open>docOk\<close>. Where it refuses the id it throws, the loop is left, the \<open>catch\<close> logs the
  error and \<open>setMetrics\<close> is not called: the result is \<open>None\<close>. Otherwise the result
  is the argument of \<open>setMetrics\<close>.
\<close>

fun runLoop ::
  "(string \<Rightarrow> bool) \<Rightarrow> stocks \<Rightarrow> agg_state \<Rightarrow> Transaction list \<Rightarrow> agg_state option" where
  "runLoop docOk db st [] = Some st"
| "runLoop docOk db st (txn # txns) =
     (if docOk (stock_id txn) then runLoop docOk db (processTransaction db st txn) txns
      else None)"

definition loadPortfolioMetricsTry ::
  "(string \<Rightarrow> bool) \<Rightarrow> stocks \<Rightarrow> Transaction list \<Rightarrow> PortfolioMetrics option" where
  "loadPortfolioMetricsTry docOk db txns =
     map_option buildMetrics (runLoop docOk db ([], 0) txns)"

section \<open>calculatePortfolioValue (Portfolios)\<close>

text \<open>
  The portfolio page folds the loaded transactions, each carrying its optional joined
  stock, into a quantity per stock id, and lists the entries whose quantity is positive.
  Every transaction that is not a buy is subtracted.
\<close>

record Position =
  quantity :: real
  symbol :: string
  name :: string

record PositionRow =
  stockId :: string
  quantity :: real
  symbol :: string
  name :: string

definition addPosition ::
  "(string, Position) js_map \<Rightarrow> Transaction \<Rightarrow> (string, Position) js_map" where
  "addPosition hs txn =
     (let key = stock_id txn;
          current =
            (case map_get hs key of
               Some c \<Rightarrow> c
             | None \<Rightarrow>
                 \<lparr>Position.quantity = 0,
                  Position.symbol =
                    (case Transaction.stock txn of Some s \<Rightarrow> Stock.symbol s | None \<Rightarrow> []),
                  Position.name =
                    (case Transaction.stock txn of Some s \<Rightarrow> Stock.name s | None \<Rightarrow> [])\<rparr>);
          current' =
            (if transaction_type txn = Buy
             then current\<lparr>Position.quantity :=
                            Position.quantity current + Transaction.quantity txn\<rparr>
             else current\<lparr>Position.quantity :=
                            Position.quantity current - Transaction.quantity txn\<rparr>)
      in map_set hs key current')"

definition calculatePortfolioValue :: "Transaction list \<Rightarrow> PositionRow list" where
  "calculatePortfolioValue transactions =
     map (\<lambda>(sid, holding).
            \<lparr>stockId = sid,
             PositionRow.quantity = Position.quantity holding,
             PositionRow.symbol = Position.symbol holding,
             PositionRow.name = Position.name holding\<rparr>)
       (filter (\<lambda>(sid, holding). 0 < Position.quantity holding)
          (foldl addPosition [] transactions))"

section \<open>Example data\<close>

definition mkStock :: "string \<Rightarrow> string \<Rightarrow> string \<Rightarrow> Stock" where
  "mkStock i s sec =
     \<lparr>id = i, Stock.symbol = s, Stock.name = s, Stock.sector = sec,
      industry = [], exchange = [], currency = ''USD''\<rparr>"

definition AAPL :: Stock where
  "AAPL = mkStock ''s1'' ''AAPL'' ''Technology''"

definition JPM :: Stock where
  "JPM = mkStock ''s2'' ''JPM'' ''Finance''"

text \<open>A stocks collection with two documents; any other id does not resolve.\<close>

definition exampleStocks :: stocks where
  "exampleStocks = [''s1'' \<mapsto> AAPL, ''s2'' \<mapsto> JPM]"

definition mkTxn :: "transaction_type \<Rightarrow> string \<Rightarrow> real \<Rightarrow> real \<Rightarrow> real \<Rightarrow> Transaction" where
  "mkTxn ty sid q p f =
     \<lparr>stock_id = sid, transaction_type = ty, Transaction.quantity = q, price = p,
      fees = f, Transaction.stock = None\<rparr>"

text \<open>
  An instance of the check of \<open>doc\<close> for the examples: it refuses the empty id, for which
  the path \<open>stocks\<close> has a single segment and names no document, and accepts an id
  without a slash.
\<close>

definition plainId :: "string \<Rightarrow> bool" where
  "plainId sid = (sid \<noteq> [] \<and> CHR ''/'' \<notin> set sid)"

section \<open>Predicates used in the statements\<close>

text \<open>\<open>stockDoc.exists()\<close> for the stock a transaction refers to.\<close>

definition stockExists :: "stocks \<Rightarrow> Transaction \<Rightarrow> bool" where
  "stockExists db txn = (db (stock_id txn) \<noteq> None)"

text \<open>The invariant of the loop when every transaction has a positive quantity.\<close>

definition positive :: "(string, Holding) js_map \<Rightarrow> bool" where
  "positive hs = (\<forall>(k, h) \<in> set hs. 0 < Holding.quantity h)"

section \<open>Facts about the Map operations\<close>

lemmas example_defs = exampleStocks_def mkTxn_def AAPL_def JPM_def mkStock_def

lemmas run_defs = loadPortfolioMetrics_def buildMetrics_def aggregate_def processTransaction_def map_get_def
  map_set_def map_delete_def map_values_def finishHolding_def addSector_def sectorKey_def
  js_div_def Let_def

lemma map_get_map_set: "map_get (map_set m k v) k' = (if k' = k then Some v else map_get m k')"
proof (cases "map_of m k")
  case None
  then show ?thesis
    by (auto simp: map_get_def map_set_def map_add_def split: option.splits)
next
  case (Some a)
  have "map_of (map (\<lambda>(k', v'). if k' = k then (k', v) else (k', v')) m) k' =
        (if k' = k then (if map_of m k = None then None else Some v) else map_of m k')"
    by (induction m) auto
  with Some show ?thesis by (simp add: map_get_def map_set_def)
qed

lemma map_get_map_delete:
  "map_get (map_delete m k) k' = (if k' = k then None else map_get m k')"
  unfolding map_get_def map_delete_def by (induction m) auto

lemma keys_map_set:
  "map fst (map_set m k v) = (if map_of m k = None then map fst m @ [k] else map fst m)"
proof -
  have "map fst (map (\<lambda>(k', v'). if k' = k then (k', v) else (k', v')) m) = map fst m"
    by (induction m) auto
  then show ?thesis by (simp add: map_set_def)
qed

lemma distinct_map_set: "distinct (map fst m) \<Longrightarrow> distinct (map fst (map_set m k v))"
  by (auto simp: keys_map_set map_of_eq_None_iff)

lemma distinct_map_delete: "distinct (map fst m) \<Longrightarrow> distinct (map fst (map_delete m k))"
  unfolding map_delete_def by (induction m) auto

lemma set_map_set: "set (map_set m k v) \<subseteq> insert (k, v) (set m)"
  by (auto simp: map_set_def split: if_splits)

lemma set_map_delete: "set (map_delete m k) \<subseteq> set m"
  by (auto simp: map_delete_def)

lemma map_get_SomeD: "map_get m k = Some v \<Longrightarrow> (k, v) \<in> set m"
  by (simp add: map_get_def map_of_SomeD)

section \<open>Facts about the loop\<close>

lemma aggregate_snoc: "aggregate db (txns @ [t]) = processTransaction db (aggregate db txns) t"
  by (simp add: aggregate_def)

lemma processTransaction_unresolved:
  "\<not> stockExists db t \<Longrightarrow> processTransaction db st t = st"
  by (simp add: processTransaction_def stockExists_def)

lemma foldl_resolved:
  "foldl (processTransaction db) st (filter (stockExists db) txns) =
   foldl (processTransaction db) st txns"
  by (induction txns arbitrary: st) (auto simp: processTransaction_unresolved)

lemma runLoop_foldl:
  "runLoop docOk db st txns =
     (if list_all (\<lambda>t. docOk (stock_id t)) txns
      then Some (foldl (processTransaction db) st txns) else None)"
  by (induction txns arbitrary: st) simp_all

lemma snd_processTransaction:
  "snd (processTransaction db st t) =
     snd st + (if transaction_type t = Buy \<and> stockExists db t
               then Transaction.quantity t * price t + fees t else 0)"
  by (auto simp: processTransaction_def Let_def stockExists_def
           split: option.splits transaction_type.splits)

lemma snd_foldl_processTransaction:
  "snd (foldl (processTransaction db) st txns) =
   snd st + sum_list (map (\<lambda>t. Transaction.quantity t * price t + fees t)
                  (filter (\<lambda>t. transaction_type t = Buy \<and> stockExists db t) txns))"
  by (induction txns arbitrary: st) (simp_all add: snd_processTransaction)

lemma totalCost_loadPortfolioMetrics:
  "PortfolioMetrics.totalCost (loadPortfolioMetrics db txns) = snd (aggregate db txns)"
  by (simp add: loadPortfolioMetrics_def buildMetrics_def Let_def)

lemma distinct_step:
  "distinct (map fst (fst st)) \<Longrightarrow> distinct (map fst (fst (processTransaction db st x)))"
  by (auto simp: processTransaction_def Let_def distinct_map_set distinct_map_delete
           split: option.splits transaction_type.splits)

lemma distinct_foldl:
  "distinct (map fst (fst st)) \<Longrightarrow>
   distinct (map fst (fst (foldl (processTransaction db) st txns)))"
  by (induction txns arbitrary: st) (simp_all add: distinct_step)

lemma distinct_aggregate: "distinct (map fst (fst (aggregate db txns)))"
  unfolding aggregate_def by (rule distinct_foldl) simp

lemma positive_step:
  assumes "positive (fst st)" and "0 < Transaction.quantity t"
  shows "positive (fst (processTransaction db st t))"
proof -
  have ins: "positive (map_set (fst st) k v)" if "0 < Holding.quantity v" for k v
    using assms(1) that set_map_set [of "fst st" k v] by (auto simp: positive_def)
  have del: "positive (map_delete (fst st) k)" for k
    using assms(1) set_map_delete [of "fst st" k] by (auto simp: positive_def)
  have old: "0 < Holding.quantity h" if "map_get (fst st) k = Some h" for k h
    using assms(1) map_get_SomeD [OF that] by (auto simp: positive_def)
  show ?thesis
    using assms ins del old
    by (auto simp: processTransaction_def Let_def add_pos_pos
             split: option.splits transaction_type.splits)
qed

lemma positive_foldl:
  "positive (fst st) \<Longrightarrow> \<forall>t \<in> set txns. 0 < Transaction.quantity t \<Longrightarrow>
   positive (fst (foldl (processTransaction db) st txns))"
  by (induction txns arbitrary: st) (simp_all add: positive_step)

lemma quantity_finishHolding: "Holding.quantity (finishHolding tv h) = Holding.quantity h"
  by (simp add: finishHolding_def)

section \<open>Totals\<close>

text \<open>
  C1 asks that the total value be the sum of quantity times current price over the
  holdings of the result. The routine sums the \<open>currentValue\<close> fields, and
  \<open>currentValue\<close> is written only where a holding is created: a later buy or sell changes
  the quantity and leaves it as it was. For a buy of 10 at 100 followed by a sell of 4 the
  one holding has quantity 6 and current price 100, and the total value is 1000, not 600.
\<close>

theorem C1_total_value_after_partial_sell:
  "totalValue (loadPortfolioMetrics exampleStocks
      [mkTxn Buy ''s1'' 10 100 0, mkTxn Sell ''s1'' 4 110 0]) = 1000 \<and>
   sum_list (map (\<lambda>h. Holding.quantity h * currentPrice h)
      (holdings (loadPortfolioMetrics exampleStocks
         [mkTxn Buy ''s1'' 10 100 0, mkTxn Sell ''s1'' 4 110 0]))) = 600"
  by (simp add: run_defs example_defs)

text \<open>
  C6. The returned total cost is the sum of quantity times price plus fees over the buy
  transactions whose stock resolves, in the order processed; a sell, wherever it stands
  in the list, leaves the total cost as it is without it.
\<close>

theorem C6_total_cost_sums_buys:
  "PortfolioMetrics.totalCost (loadPortfolioMetrics db txns) =
     sum_list (map (\<lambda>t. Transaction.quantity t * price t + fees t)
       (filter (\<lambda>t. transaction_type t = Buy \<and> stockExists db t) txns)) \<and>
   PortfolioMetrics.totalCost
       (loadPortfolioMetrics db (pre @ t\<lparr>transaction_type := Sell\<rparr> # post)) =
     PortfolioMetrics.totalCost (loadPortfolioMetrics db (pre @ post))"
  by (simp add: totalCost_loadPortfolioMetrics aggregate_def snd_foldl_processTransaction
        snd_processTransaction)

text \<open>
  C9. For the empty transaction list the aggregation returns no holdings, a total value
  of 0, a total cost of 0 and an empty sector allocation. No iteration of the loop
  runs, so \<open>doc\<close> is not called, and none of the remaining operations can throw.
\<close>

theorem C9_empty_portfolio:
  "holdings (loadPortfolioMetrics db []) = [] \<and>
   totalValue (loadPortfolioMetrics db []) = 0 \<and>
   PortfolioMetrics.totalCost (loadPortfolioMetrics db []) = 0 \<and>
   sectorAllocation (loadPortfolioMetrics db []) = []"
  by (simp add: loadPortfolioMetrics_def buildMetrics_def aggregate_def map_values_def)

section \<open>A single buy\<close>

text \<open>
  C2 expects, for one buy of 10 shares at 100 with fees 5, an average price of 100.5.
  The branch that creates a holding stores the bare price, 100; the fees enter the
  average only in the branch for an existing holding, which divides the total cost by the
  quantity. Quantity 10, total cost 1005, current value 1000 and unrealized gain -5 are
  as expected.
\<close>

theorem C2_single_buy:
  "holdings (loadPortfolioMetrics exampleStocks [mkTxn Buy ''s1'' 10 100 5]) =
     [\<lparr>Holding.stock = AAPL, Holding.quantity = 10, averagePrice = Finite 100,
       currentPrice = 100, Holding.totalCost = 1005, currentValue = 1000,
       unrealizedGain = - 5, unrealizedGainPercent = Finite (- (100 / 201)),
       weight = Finite 100\<rparr>]"
  by (simp add: run_defs example_defs)

section \<open>Unresolved stock references\<close>

text \<open>
  C5, as amended. A transaction whose stock reference cannot be resolved has one of two
  effects. When \<open>doc\<close> refuses the stock id of some transaction, the whole aggregation
  fails: the error is logged and no metrics are set. When every id is accepted, a
  transaction whose stock document does not exist is skipped by the \<open>continue\<close> of the
  loop and leaves no trace: the metrics set are those of the list with every such
  transaction removed.
\<close>

theorem C5_unresolved_aborts_or_is_skipped:
  "loadPortfolioMetricsTry docOk db txns =
     (if list_all (\<lambda>t. docOk (stock_id t)) txns
      then Some (loadPortfolioMetrics db (filter (stockExists db) txns))
      else None)"
  by (simp add: loadPortfolioMetricsTry_def runLoop_foldl loadPortfolioMetrics_def
        aggregate_def foldl_resolved)

text \<open>
  A transaction with an empty stock id makes the run fail; without it the metrics of the
  single buy are set.
\<close>

theorem C5_witness:
  "loadPortfolioMetricsTry plainId exampleStocks
     [mkTxn Buy ''s1'' 10 100 5, mkTxn Buy [] 3 50 1] = None \<and>
   loadPortfolioMetricsTry plainId exampleStocks [mkTxn Buy ''s1'' 10 100 5] =
     Some (loadPortfolioMetrics exampleStocks [mkTxn Buy ''s1'' 10 100 5])"
proof -
  have bad: "\<not> list_all (\<lambda>t. plainId (stock_id t))
               [mkTxn Buy ''s1'' 10 100 5, mkTxn Buy [] 3 50 1]"
    by (simp add: plainId_def mkTxn_def)
  have good: "list_all (\<lambda>t. plainId (stock_id t)) [mkTxn Buy ''s1'' 10 100 5]"
    by (simp add: plainId_def mkTxn_def)
  have kept: "filter (stockExists exampleStocks) [mkTxn Buy ''s1'' 10 100 5] =
              [mkTxn Buy ''s1'' 10 100 5]"
    by (simp add: stockExists_def example_defs)
  from C5_unresolved_aborts_or_is_skipped [of plainId exampleStocks
         "[mkTxn Buy ''s1'' 10 100 5, mkTxn Buy [] 3 50 1]"]
       C5_unresolved_aborts_or_is_skipped [of plainId exampleStocks
         "[mkTxn Buy ''s1'' 10 100 5]"]
       bad good kept
  show ?thesis by simp
qed

text \<open>
  Against C5 as stated: the id \<open>s9\<close> is accepted and has no stock document. The run with
  the transaction that refers to it sets metrics, and they are the metrics of the run
  without it.
\<close>

theorem C5_counterexample:
  "\<not> stockExists exampleStocks (mkTxn Buy ''s9'' 3 50 1) \<and>
   loadPortfolioMetricsTry plainId exampleStocks
     [mkTxn Buy ''s1'' 10 100 5, mkTxn Buy ''s9'' 3 50 1] =
   loadPortfolioMetricsTry plainId exampleStocks [mkTxn Buy ''s1'' 10 100 5] \<and>
   loadPortfolioMetricsTry plainId exampleStocks
     [mkTxn Buy ''s1'' 10 100 5, mkTxn Buy ''s9'' 3 50 1] =
   Some (loadPortfolioMetrics exampleStocks [mkTxn Buy ''s1'' 10 100 5])"
  by (simp add: loadPortfolioMetricsTry_def plainId_def run_defs example_defs
        stockExists_def)

section \<open>Division by zero\<close>

lemma not_isFinite_percent: "b = 0 \<Longrightarrow> \<not> isFinite (times100 (js_div a b))"
  by (simp add: js_div_def)

lemma totalGainPercent_buildMetrics:
  "totalGainPercent (buildMetrics st) =
     times100 (js_div (totalValue (buildMetrics st) - snd st) (snd st))"
  by (simp add: buildMetrics_def Let_def)

lemma totalCost_buildMetrics: "PortfolioMetrics.totalCost (buildMetrics st) = snd st"
  by (simp add: buildMetrics_def Let_def)

lemma holdings_buildMetrics:
  "holdings (buildMetrics st) =
     map (finishHolding (totalValue (buildMetrics st))) (map_values (fst st))"
  by (simp add: buildMetrics_def Let_def)

lemma sectorAllocation_buildMetrics:
  "a \<in> set (sectorAllocation (buildMetrics st)) \<Longrightarrow>
   \<exists>v. percentage a = times100 (js_div v (totalValue (buildMetrics st)))"
  by (auto simp: buildMetrics_def Let_def)

lemma finishHolding_percent:
  "unrealizedGainPercent (finishHolding tv h0) =
     times100 (js_div (currentValue h0 - Holding.totalCost h0)
                 (Holding.totalCost (finishHolding tv h0)))"
  "weight (finishHolding tv h0) = times100 (js_div (currentValue h0) tv)"
  by (simp_all add: finishHolding_def)

text \<open>
  C4, as amended. The routine divides without a guard and produces no sentinel: with a
  zero denominator the result is NaN or an infinity. When the total cost is zero the
  total gain percent is not finite; when the total cost of a holding is zero its
  unrealized gain percent is not finite; when the total value is zero the weight of
  every holding and the percentage of every sector are not finite.
\<close>

theorem C4_zero_denominator_not_finite:
  "(PortfolioMetrics.totalCost (loadPortfolioMetrics db txns) = 0 \<longrightarrow>
      \<not> isFinite (totalGainPercent (loadPortfolioMetrics db txns))) \<and>
   (\<forall>h \<in> set (holdings (loadPortfolioMetrics db txns)).
      (Holding.totalCost h = 0 \<longrightarrow> \<not> isFinite (unrealizedGainPercent h)) \<and>
      (totalValue (loadPortfolioMetrics db txns) = 0 \<longrightarrow> \<not> isFinite (weight h))) \<and>
   (\<forall>a \<in> set (sectorAllocation (loadPortfolioMetrics db txns)).
      totalValue (loadPortfolioMetrics db txns) = 0 \<longrightarrow> \<not> isFinite (percentage a))"
proof (intro conjI ballI impI)
  assume "PortfolioMetrics.totalCost (loadPortfolioMetrics db txns) = 0"
  then show "\<not> isFinite (totalGainPercent (loadPortfolioMetrics db txns))"
    by (simp add: loadPortfolioMetrics_def totalCost_buildMetrics
          totalGainPercent_buildMetrics not_isFinite_percent)
next
  fix h
  assume h: "h \<in> set (holdings (loadPortfolioMetrics db txns))"
  then obtain h0 where
    eq: "h = finishHolding (totalValue (loadPortfolioMetrics db txns)) h0"
    by (auto simp: loadPortfolioMetrics_def holdings_buildMetrics)
  {
    assume "Holding.totalCost h = 0"
    with eq show "\<not> isFinite (unrealizedGainPercent h)"
      by (simp add: finishHolding_percent(1) not_isFinite_percent)
  }
  {
    assume "totalValue (loadPortfolioMetrics db txns) = 0"
    with eq show "\<not> isFinite (weight h)"
      by (simp add: finishHolding_percent(2) not_isFinite_percent)
  }
next
  fix a
  assume "a \<in> set (sectorAllocation (loadPortfolioMetrics db txns))"
    and tv: "totalValue (loadPortfolioMetrics db txns) = 0"
  then obtain v where
    "percentage a = times100 (js_div v (totalValue (loadPortfolioMetrics db txns)))"
    using sectorAllocation_buildMetrics [of a "aggregate db txns"]
    by (auto simp: loadPortfolioMetrics_def)
  with tv show "\<not> isFinite (percentage a)"
    by (simp add: not_isFinite_percent)
qed

text \<open>Three shares bought at price 0 without fees: every denominator is zero.\<close>

theorem C4_witness:
  "PortfolioMetrics.totalCost
      (loadPortfolioMetrics exampleStocks [mkTxn Buy ''s2'' 3 0 0]) = 0 \<and>
   totalValue (loadPortfolioMetrics exampleStocks [mkTxn Buy ''s2'' 3 0 0]) = 0 \<and>
   map Holding.totalCost
      (holdings (loadPortfolioMetrics exampleStocks [mkTxn Buy ''s2'' 3 0 0])) = [0] \<and>
   length (sectorAllocation (loadPortfolioMetrics exampleStocks [mkTxn Buy ''s2'' 3 0 0])) = 1 \<and>
   \<not> isFinite (totalGainPercent
      (loadPortfolioMetrics exampleStocks [mkTxn Buy ''s2'' 3 0 0])) \<and>
   list_all (\<lambda>h. \<not> isFinite (unrealizedGainPercent h) \<and> \<not> isFinite (weight h))
      (holdings (loadPortfolioMetrics exampleStocks [mkTxn Buy ''s2'' 3 0 0])) \<and>
   list_all (\<lambda>a. \<not> isFinite (percentage a))
      (sectorAllocation (loadPortfolioMetrics exampleStocks [mkTxn Buy ''s2'' 3 0 0]))"
proof -
  have tc: "PortfolioMetrics.totalCost
      (loadPortfolioMetrics exampleStocks [mkTxn Buy ''s2'' 3 0 0]) = 0"
    by (simp add: run_defs example_defs)
  have tv: "totalValue (loadPortfolioMetrics exampleStocks [mkTxn Buy ''s2'' 3 0 0]) = 0"
    by (simp add: run_defs example_defs)
  have hs: "map Holding.totalCost
      (holdings (loadPortfolioMetrics exampleStocks [mkTxn Buy ''s2'' 3 0 0])) = [0]"
    by (simp add: run_defs example_defs)
  have sa: "length (sectorAllocation
      (loadPortfolioMetrics exampleStocks [mkTxn Buy ''s2'' 3 0 0])) = 1"
    by (simp add: run_defs example_defs)
  have each: "list_all (\<lambda>h. Holding.totalCost h = 0)
      (holdings (loadPortfolioMetrics exampleStocks [mkTxn Buy ''s2'' 3 0 0]))"
    by (simp add: run_defs example_defs)
  have inst: "\<not> isFinite (totalGainPercent
        (loadPortfolioMetrics exampleStocks [mkTxn Buy ''s2'' 3 0 0])) \<and>
     (\<forall>h \<in> set (holdings (loadPortfolioMetrics exampleStocks [mkTxn Buy ''s2'' 3 0 0])).
        (Holding.totalCost h = 0 \<longrightarrow> \<not> isFinite (unrealizedGainPercent h)) \<and>
        \<not> isFinite (weight h)) \<and>
     (\<forall>a \<in> set (sectorAllocation
          (loadPortfolioMetrics exampleStocks [mkTxn Buy ''s2'' 3 0 0])).
        \<not> isFinite (percentage a))"
    using C4_zero_denominator_not_finite [of exampleStocks "[mkTxn Buy ''s2'' 3 0 0]"] tc tv
    by blast
  from inst each have
    "list_all (\<lambda>h. \<not> isFinite (unrealizedGainPercent h) \<and> \<not> isFinite (weight h))
      (holdings (loadPortfolioMetrics exampleStocks [mkTxn Buy ''s2'' 3 0 0]))"
    unfolding list_all_iff by blast
  moreover from inst have "list_all (\<lambda>a. \<not> isFinite (percentage a))
      (sectorAllocation (loadPortfolioMetrics exampleStocks [mkTxn Buy ''s2'' 3 0 0]))"
    unfolding list_all_iff by blast
  moreover from inst have "\<not> isFinite (totalGainPercent
      (loadPortfolioMetrics exampleStocks [mkTxn Buy ''s2'' 3 0 0]))"
    by blast
  ultimately show ?thesis
    using tc tv hs sa by blast
qed

text \<open>
  Against C4 as stated: the empty portfolio has the total gain percent NaN, and a
  holding bought at price 0 without fees has NaN for its unrealized gain percent and for
  its weight.
\<close>

theorem C4_counterexample:
  "totalGainPercent (loadPortfolioMetrics exampleStocks []) = NaN \<and>
   holdings (loadPortfolioMetrics exampleStocks [mkTxn Buy ''s1'' 10 0 0]) =
     [\<lparr>Holding.stock = AAPL, Holding.quantity = 10, averagePrice = Finite 0,
       currentPrice = 0, Holding.totalCost = 0, currentValue = 0, unrealizedGain = 0,
       unrealizedGainPercent = NaN, weight = NaN\<rparr>]"
  by (simp add: run_defs example_defs)

section \<open>Processing one transaction\<close>

text \<open>
  C7. Processing a sell of quantity q on a symbol, after any list of transactions: with
  no holding for the symbol the state is unchanged; otherwise the holding is removed when
  its quantity minus q is at most 0 (an oversell included), and else it stays with its
  quantity reduced by q and its average price and total cost as they were. The holdings
  of the other symbols and the total cost accumulator are untouched.
\<close>

theorem C7_sell:
  assumes "db (stock_id txn) = Some stk" and "transaction_type txn = Sell"
  shows "(map_get (fst (aggregate db txns)) (Stock.symbol stk) = None \<longrightarrow>
            aggregate db (txns @ [txn]) = aggregate db txns) \<and>
         (\<forall>h. map_get (fst (aggregate db txns)) (Stock.symbol stk) = Some h \<longrightarrow>
            (if Holding.quantity h - Transaction.quantity txn \<le> 0
             then map_get (fst (aggregate db (txns @ [txn]))) (Stock.symbol stk) = None
             else \<exists>h'. map_get (fst (aggregate db (txns @ [txn]))) (Stock.symbol stk) = Some h' \<and>
                    Holding.quantity h' = Holding.quantity h - Transaction.quantity txn \<and>
                    averagePrice h' = averagePrice h \<and>
                    Holding.totalCost h' = Holding.totalCost h)) \<and>
         (\<forall>k. k \<noteq> Stock.symbol stk \<longrightarrow>
            map_get (fst (aggregate db (txns @ [txn]))) k =
            map_get (fst (aggregate db txns)) k) \<and>
         snd (aggregate db (txns @ [txn])) = snd (aggregate db txns)"
  using assms
  by (auto simp: aggregate_snoc processTransaction_def Let_def map_get_map_set
        map_get_map_delete split: option.splits)

text \<open>A partial sell, 4 of 10 shares bought at 100 with fees 5.\<close>

theorem C7_witness:
  "exampleStocks (stock_id (mkTxn Sell ''s1'' 4 110 0)) = Some AAPL \<and>
   transaction_type (mkTxn Sell ''s1'' 4 110 0) = Sell \<and>
   (\<exists>h'. map_get (fst (aggregate exampleStocks
              ([mkTxn Buy ''s1'' 10 100 5] @ [mkTxn Sell ''s1'' 4 110 0]))) ''AAPL'' = Some h' \<and>
          Holding.quantity h' = 6 \<and> averagePrice h' = Finite 100 \<and>
          Holding.totalCost h' = 1005)"
proof -
  have res: "exampleStocks (stock_id (mkTxn Sell ''s1'' 4 110 0)) = Some AAPL"
    by (simp add: example_defs)
  have ty: "transaction_type (mkTxn Sell ''s1'' 4 110 0) = Sell"
    by (simp add: mkTxn_def)
  have before: "map_get (fst (aggregate exampleStocks [mkTxn Buy ''s1'' 10 100 5]))
                  (Stock.symbol AAPL) =
      Some \<lparr>Holding.stock = AAPL, Holding.quantity = 10, averagePrice = Finite 100,
            currentPrice = 100, Holding.totalCost = 1005, currentValue = 1000,
            unrealizedGain = 0, unrealizedGainPercent = Finite 0, weight = Finite 0\<rparr>"
    by (simp add: run_defs example_defs)
  have sym: "Stock.symbol AAPL = ''AAPL''"
    by (simp add: example_defs)
  from C7_sell [where db = exampleStocks and txn = "mkTxn Sell ''s1'' 4 110 0" and stk = AAPL
      and txns = "[mkTxn Buy ''s1'' 10 100 5]", OF res ty] before
  have "\<exists>h'. map_get (fst (aggregate exampleStocks
              ([mkTxn Buy ''s1'' 10 100 5] @ [mkTxn Sell ''s1'' 4 110 0]))) (Stock.symbol AAPL) =
              Some h' \<and>
          Holding.quantity h' = 6 \<and> averagePrice h' = Finite 100 \<and>
          Holding.totalCost h' = 1005"
    by (simp add: mkTxn_def)
  with res ty sym show ?thesis by simp
qed

text \<open>
  C8. A buy of quantity q at price p with fees f on a symbol that has a holding, after
  any list of transactions, leaves a holding for that symbol whose quantity is the old
  one plus q, whose total cost is the old one plus q times p plus f, and whose average
  price is the new total cost divided by the new quantity (JavaScript's division: not
  finite when the new quantity is 0).
\<close>

theorem C8_buy_existing_holding:
  assumes "db (stock_id txn) = Some stk" and "transaction_type txn = Buy"
    and "map_get (fst (aggregate db txns)) (Stock.symbol stk) = Some h"
  shows "\<exists>h'. map_get (fst (aggregate db (txns @ [txn]))) (Stock.symbol stk) = Some h' \<and>
           Holding.quantity h' = Holding.quantity h + Transaction.quantity txn \<and>
           Holding.totalCost h' =
             Holding.totalCost h + (Transaction.quantity txn * price txn + fees txn) \<and>
           averagePrice h' = js_div (Holding.totalCost h') (Holding.quantity h')"
  using assms
  by (simp add: aggregate_snoc processTransaction_def Let_def map_get_map_set)

text \<open>A second buy, 10 more shares at 100 with fees 5: the average becomes 2010 / 20.\<close>

theorem C8_witness:
  "exampleStocks (stock_id (mkTxn Buy ''s1'' 10 100 5)) = Some AAPL \<and>
   transaction_type (mkTxn Buy ''s1'' 10 100 5) = Buy \<and>
   (\<exists>h'. map_get (fst (aggregate exampleStocks
              ([mkTxn Buy ''s1'' 10 100 5] @ [mkTxn Buy ''s1'' 10 100 5]))) ''AAPL'' = Some h' \<and>
          Holding.quantity h' = 20 \<and> Holding.totalCost h' = 2010 \<and>
          averagePrice h' = Finite (201 / 2))"
proof -
  have res: "exampleStocks (stock_id (mkTxn Buy ''s1'' 10 100 5)) = Some AAPL"
    by (simp add: example_defs)
  have ty: "transaction_type (mkTxn Buy ''s1'' 10 100 5) = Buy"
    by (simp add: mkTxn_def)
  have before: "map_get (fst (aggregate exampleStocks [mkTxn Buy ''s1'' 10 100 5]))
                  (Stock.symbol AAPL) =
      Some \<lparr>Holding.stock = AAPL, Holding.quantity = 10, averagePrice = Finite 100,
            currentPrice = 100, Holding.totalCost = 1005, currentValue = 1000,
            unrealizedGain = 0, unrealizedGainPercent = Finite 0, weight = Finite 0\<rparr>"
    by (simp add: run_defs example_defs)
  have sym: "Stock.symbol AAPL = ''AAPL''"
    by (simp add: example_defs)
  from C8_buy_existing_holding [where db = exampleStocks and txn = "mkTxn Buy ''s1'' 10 100 5"
      and stk = AAPL and txns = "[mkTxn Buy ''s1'' 10 100 5]", OF res ty before]
  obtain h' where
    got: "map_get (fst (aggregate exampleStocks
              ([mkTxn Buy ''s1'' 10 100 5] @ [mkTxn Buy ''s1'' 10 100 5]))) (Stock.symbol AAPL) =
              Some h'" and
    q: "Holding.quantity h' = 10 + Transaction.quantity (mkTxn Buy ''s1'' 10 100 5)" and
    c: "Holding.totalCost h' = 1005 + (Transaction.quantity (mkTxn Buy ''s1'' 10 100 5) *
           price (mkTxn Buy ''s1'' 10 100 5) + fees (mkTxn Buy ''s1'' 10 100 5))" and
    a: "averagePrice h' = js_div (Holding.totalCost h') (Holding.quantity h')"
    by auto
  from q have q': "Holding.quantity h' = 20" by (simp add: mkTxn_def)
  from c have c': "Holding.totalCost h' = 2010" by (simp add: mkTxn_def)
  from a q' c' have "averagePrice h' = Finite (201 / 2)" by (simp add: js_div_def)
  with got q' c' res ty sym show ?thesis by auto
qed

section \<open>Positive quantities\<close>

text \<open>
  C10. When every transaction has a positive quantity, every holding in the metrics has
  a quantity greater than 0, and so has every row that \<open>calculatePortfolioValue\<close> lists
  for the same transactions.
\<close>

theorem C10_holdings_positive:
  assumes "\<forall>t \<in> set txns. 0 < Transaction.quantity t"
  shows "(\<forall>h \<in> set (holdings (loadPortfolioMetrics db txns)). 0 < Holding.quantity h) \<and>
         (\<forall>r \<in> set (calculatePortfolioValue txns). 0 < PositionRow.quantity r)"
proof -
  have "positive (fst (aggregate db txns))"
    unfolding aggregate_def using assms by (intro positive_foldl) (simp_all add: positive_def)
  then have "\<forall>h \<in> set (holdings (loadPortfolioMetrics db txns)). 0 < Holding.quantity h"
    by (auto simp: loadPortfolioMetrics_def buildMetrics_def Let_def map_values_def positive_def
          quantity_finishHolding)
  moreover have "\<forall>r \<in> set (calculatePortfolioValue txns). 0 < PositionRow.quantity r"
    by (auto simp: calculatePortfolioValue_def)
  ultimately show ?thesis by simp
qed

text \<open>Two buys and a partial sell leave one holding of 11 shares.\<close>

theorem C10_witness:
  "list_all (\<lambda>t. 0 < Transaction.quantity t)
     [mkTxn Buy ''s1'' 10 100 0, mkTxn Sell ''s1'' 4 110 0, mkTxn Buy ''s1'' 5 200 0] \<and>
   map Holding.quantity (holdings (loadPortfolioMetrics exampleStocks
     [mkTxn Buy ''s1'' 10 100 0, mkTxn Sell ''s1'' 4 110 0, mkTxn Buy ''s1'' 5 200 0])) = [11] \<and>
   list_all (\<lambda>h. 0 < Holding.quantity h) (holdings (loadPortfolioMetrics exampleStocks
     [mkTxn Buy ''s1'' 10 100 0, mkTxn Sell ''s1'' 4 110 0, mkTxn Buy ''s1'' 5 200 0])) \<and>
   map PositionRow.quantity (calculatePortfolioValue
     [mkTxn Buy ''s1'' 10 100 0, mkTxn Sell ''s1'' 4 110 0, mkTxn Buy ''s1'' 5 200 0]) = [11] \<and>
   list_all (\<lambda>r. 0 < PositionRow.quantity r) (calculatePortfolioValue
     [mkTxn Buy ''s1'' 10 100 0, mkTxn Sell ''s1'' 4 110 0, mkTxn Buy ''s1'' 5 200 0])"
proof -
  have pos: "\<forall>t \<in> set [mkTxn Buy ''s1'' 10 100 0, mkTxn Sell ''s1'' 4 110 0,
                mkTxn Buy ''s1'' 5 200 0]. 0 < Transaction.quantity t"
    by (simp add: mkTxn_def)
  have run: "map Holding.quantity (holdings (loadPortfolioMetrics exampleStocks
     [mkTxn Buy ''s1'' 10 100 0, mkTxn Sell ''s1'' 4 110 0, mkTxn Buy ''s1'' 5 200 0])) = [11]"
    by (simp add: run_defs example_defs)
  have rows: "map PositionRow.quantity (calculatePortfolioValue
     [mkTxn Buy ''s1'' 10 100 0, mkTxn Sell ''s1'' 4 110 0, mkTxn Buy ''s1'' 5 200 0]) = [11]"
    by (simp add: calculatePortfolioValue_def addPosition_def map_get_def map_set_def
          mkTxn_def Let_def)
  from C10_holdings_positive [OF pos, of exampleStocks] pos run rows show ?thesis
    by (simp add: list_all_iff)
qed

section \<open>The current price of a holding\<close>

lemma opened_by_step:
  assumes "map_get (fst st) s = None"
    and "map_get (fst (processTransaction db st x)) s = Some h"
  shows "db (stock_id x) = Some (Holding.stock h) \<and> Stock.symbol (Holding.stock h) = s \<and>
         transaction_type x = Buy \<and> currentPrice h = price x"
  using assms
  by (auto simp: processTransaction_def Let_def map_get_map_set map_get_map_delete
        split: option.splits transaction_type.splits if_splits)

lemma kept_by_step:
  assumes "map_get (fst st) s = Some h0"
    and "map_get (fst (processTransaction db st x)) s = Some h"
  shows "currentPrice h = currentPrice h0 \<and> Holding.stock h = Holding.stock h0"
  using assms
  by (auto simp: processTransaction_def Let_def map_get_map_set map_get_map_delete
        split: option.splits transaction_type.splits if_splits)

lemma opening_buy:
  "map_get (fst (aggregate db txns)) s = Some h \<Longrightarrow>
   \<exists>pre t post. txns = pre @ t # post \<and> db (stock_id t) = Some (Holding.stock h) \<and>
     Stock.symbol (Holding.stock h) = s \<and> transaction_type t = Buy \<and>
     map_get (fst (aggregate db pre)) s = None \<and>
     (\<forall>n \<le> length post. map_get (fst (aggregate db (pre @ t # take n post))) s \<noteq> None) \<and>
     currentPrice h = price t"
proof (induction txns arbitrary: h rule: rev_induct)
  case Nil
  then show ?case by (simp add: aggregate_def map_get_def)
next
  case (snoc x xs)
  have now: "map_get (fst (processTransaction db (aggregate db xs) x)) s = Some h"
    using snoc.prems by (simp add: aggregate_snoc)
  show ?case
  proof (cases "map_get (fst (aggregate db xs)) s")
    case None
    from opened_by_step [OF None now]
    have "xs @ [x] = xs @ x # [] \<and> db (stock_id x) = Some (Holding.stock h) \<and>
          Stock.symbol (Holding.stock h) = s \<and> transaction_type x = Buy \<and>
          map_get (fst (aggregate db xs)) s = None \<and>
          (\<forall>n \<le> length ([]::Transaction list).
             map_get (fst (aggregate db (xs @ x # take n []))) s \<noteq> None) \<and>
          currentPrice h = price x"
      using None snoc.prems by simp
    then show ?thesis by blast
  next
    case (Some h0)
    from kept_by_step [OF Some now]
    have same: "currentPrice h = currentPrice h0" "Holding.stock h = Holding.stock h0"
      by simp_all
    from snoc.IH [OF Some] obtain pre t post where
      split: "xs = pre @ t # post" and
      res: "db (stock_id t) = Some (Holding.stock h0)" "Stock.symbol (Holding.stock h0) = s"
           "transaction_type t = Buy" and
      before: "map_get (fst (aggregate db pre)) s = None" and
      during: "\<forall>n \<le> length post.
                 map_get (fst (aggregate db (pre @ t # take n post))) s \<noteq> None" and
      pr: "currentPrice h0 = price t"
      by blast
    have "map_get (fst (aggregate db (pre @ t # take n (post @ [x])))) s \<noteq> None"
      if "n \<le> length (post @ [x])" for n
    proof (cases "n \<le> length post")
      case True
      with during show ?thesis by simp
    next
      case False
      with that have "take n (post @ [x]) = post @ [x]" by simp
      with split snoc.prems show ?thesis by simp
    qed
    then have "xs @ [x] = pre @ t # (post @ [x]) \<and>
          db (stock_id t) = Some (Holding.stock h) \<and>
          Stock.symbol (Holding.stock h) = s \<and> transaction_type t = Buy \<and>
          map_get (fst (aggregate db pre)) s = None \<and>
          (\<forall>n \<le> length (post @ [x]).
             map_get (fst (aggregate db (pre @ t # take n (post @ [x])))) s \<noteq> None) \<and>
          currentPrice h = price t"
      using split res before pr same by simp
    then show ?thesis by blast
  qed
qed

lemma holdings_origin:
  assumes "h \<in> set (holdings (loadPortfolioMetrics db txns))"
  shows "\<exists>k h0. map_get (fst (aggregate db txns)) k = Some h0 \<and>
           Holding.stock h = Holding.stock h0 \<and> currentPrice h = currentPrice h0"
proof -
  from assms obtain k h0 where mem: "(k, h0) \<in> set (fst (aggregate db txns))"
    and h: "h = finishHolding (totalValue (loadPortfolioMetrics db txns)) h0"
    by (auto simp: loadPortfolioMetrics_def buildMetrics_def Let_def map_values_def)
  from mem distinct_aggregate [of db txns]
  have "map_get (fst (aggregate db txns)) k = Some h0"
    by (simp add: map_get_def)
  with h show ?thesis by (auto simp: finishHolding_def)
qed

text \<open>
  C3, as amended. The current price of a holding that remains after processing is the
  price of the buy that opened the position: a buy of the holding's stock, processed when
  the symbol had no holding, and after which the symbol has had a holding at every step.
  Later transactions for the symbol do not change it.
\<close>

theorem C3_current_price_is_opening_price:
  assumes "h \<in> set (holdings (loadPortfolioMetrics db txns))"
  shows "\<exists>pre t post. txns = pre @ t # post \<and> db (stock_id t) = Some (Holding.stock h) \<and>
     transaction_type t = Buy \<and>
     map_get (fst (aggregate db pre)) (Stock.symbol (Holding.stock h)) = None \<and>
     (\<forall>n \<le> length post.
        map_get (fst (aggregate db (pre @ t # take n post))) (Stock.symbol (Holding.stock h))
          \<noteq> None) \<and>
     currentPrice h = price t"
proof -
  from holdings_origin [OF assms] obtain k h0 where
    got: "map_get (fst (aggregate db txns)) k = Some h0" and
    same: "Holding.stock h = Holding.stock h0" "currentPrice h = currentPrice h0"
    by blast
  from opening_buy [OF got] same show ?thesis by auto
qed

text \<open>
  A position opened at 100, sold in part and bought again at 200: the holding that
  remains has an opening buy in the list.
\<close>

theorem C3_witness:
  "\<lparr>Holding.stock = AAPL, Holding.quantity = 11, averagePrice = Finite (2000 / 11),
     currentPrice = 100, Holding.totalCost = 2000, currentValue = 1000,
     unrealizedGain = - 1000, unrealizedGainPercent = Finite (- 50), weight = Finite 100\<rparr>
     \<in> set (holdings (loadPortfolioMetrics exampleStocks
         [mkTxn Buy ''s1'' 10 100 0, mkTxn Sell ''s1'' 4 110 0, mkTxn Buy ''s1'' 5 200 0])) \<and>
   (\<exists>pre t post.
      [mkTxn Buy ''s1'' 10 100 0, mkTxn Sell ''s1'' 4 110 0, mkTxn Buy ''s1'' 5 200 0] =
        pre @ t # post \<and>
      exampleStocks (stock_id t) = Some AAPL \<and> transaction_type t = Buy \<and>
      map_get (fst (aggregate exampleStocks pre)) (Stock.symbol AAPL) = None \<and>
      (\<forall>n \<le> length post.
         map_get (fst (aggregate exampleStocks (pre @ t # take n post))) (Stock.symbol AAPL)
           \<noteq> None) \<and>
      price t = 100)"
proof -
  have mem: "\<lparr>Holding.stock = AAPL, Holding.quantity = 11, averagePrice = Finite (2000 / 11),
     currentPrice = 100, Holding.totalCost = 2000, currentValue = 1000,
     unrealizedGain = - 1000, unrealizedGainPercent = Finite (- 50), weight = Finite 100\<rparr>
     \<in> set (holdings (loadPortfolioMetrics exampleStocks
         [mkTxn Buy ''s1'' 10 100 0, mkTxn Sell ''s1'' 4 110 0, mkTxn Buy ''s1'' 5 200 0]))"
    by (simp add: run_defs example_defs)
  from C3_current_price_is_opening_price [OF mem] mem show ?thesis
    by simp
qed

text \<open>
  Against C3 as stated: after a buy of 10 at 100 and a buy of 5 at 200 the holding has
  current price 100, while the last transaction processed for the symbol has price 200;
  its current value is 1000, while quantity times current price is 1500.
\<close>

theorem C3_counterexample:
  "holdings (loadPortfolioMetrics exampleStocks
      [mkTxn Buy ''s1'' 10 100 0, mkTxn Buy ''s1'' 5 200 0]) =
     [\<lparr>Holding.stock = AAPL, Holding.quantity = 15, averagePrice = Finite (400 / 3),
       currentPrice = 100, Holding.totalCost = 2000, currentValue = 1000,
       unrealizedGain = - 1000, unrealizedGainPercent = Finite (- 50),
       weight = Finite 100\<rparr>] \<and>
   price (last [mkTxn Buy ''s1'' 10 100 0, mkTxn Buy ''s1'' 5 200 0]) = 200"
  by (simp add: run_defs example_defs)

end
